theory Spec2Isabelle
  imports Complex_Main
begin

section \<open>The bouncing-ball simulation of \<^verbatim>\<open>canvas.js\<close>\<close>

text \<open>
  The script keeps an array \<^verbatim>\<open>balls\<close> of circle bodies, advances them once per animation
  frame (\<^verbatim>\<open>step\<close>: integrate, collide with the walls, collide pairwise) and adds bodies
  from a timer and from the mouse, dropping the oldest body above \<^verbatim>\<open>MAX_BALLS\<close>.

  JavaScript numbers are modelled as \<^typ>\<open>real\<close>: \<^verbatim>\<open>Math.sqrt\<close>, \<^verbatim>\<open>Math.exp\<close>,
  \<^verbatim>\<open>Math.abs\<close>, \<^verbatim>\<open>Math.min\<close>, \<^verbatim>\<open>Math.max\<close> and \<^verbatim>\<open>Math.PI\<close> are \<^const>\<open>sqrt\<close>,
  \<^const>\<open>exp\<close>, \<^const>\<open>abs\<close>, \<^const>\<open>min\<close>, \<^const>\<open>max\<close> and \<^const>\<open>pi\<close>. The rounding of
  IEEE-754 doubles, their infinities and NaN are outside this model. In-place mutation of
  an object is a function returning the updated record; mutation of the array is a
  function returning the updated list. Every value the script reads from the environment
  (\<^verbatim>\<open>Math.random()\<close>, \<^verbatim>\<open>performance.now()\<close>, the event's coordinates, the canvas size,
  the CSS variable \<^verbatim>\<open>--gravity\<close>) is an argument of the function that reads it.

  The script divides by the distance of two centres (guarded, never zero where it is
  used), by constants, by a drag duration of at least 16 ms, and by masses and sums of
  masses. A body built by the constructor with a radius other than 0 has a positive mass,
  so these divisors are not zero on the bodies the script creates; for a zero divisor
  JavaScript gives an infinity or NaN and HOL gives 0, which is outside the model too.
\<close>

subsection \<open>Physics parameters (lines 24--30) and spawn configuration (lines 165--168)\<close>

text \<open>
  \<^verbatim>\<open>const G = parseFloat(...getPropertyValue('--gravity')) || 1600\<close>: the argument is the
  number \<^verbatim>\<open>parseFloat\<close> returns, \<open>None\<close> for NaN; NaN and 0 are falsy and give 1600.
\<close>

definition G_of :: "real option \<Rightarrow> real" where
  "G_of css = (case css of None \<Rightarrow> 1600 | Some g \<Rightarrow> (if g = 0 then 1600 else g))"

definition RESTITUTION :: real where
  "RESTITUTION = 84 / 100"

definition FRICTION :: real where
  "FRICTION = 8 / 1000"

definition AIR_DRAG :: real where
  "AIR_DRAG = 8 / 10000"

definition MAX_DT :: real where
  "MAX_DT = 1 / 60"

definition SUBSTEPS :: nat where
  "SUBSTEPS = 1"

definition INITIAL_BALLS :: nat where
  "INITIAL_BALLS = 2"

definition MAX_BALLS :: nat where
  "MAX_BALLS = 4"

subsection \<open>Utilities (lines 33--34)\<close>

text \<open>\<^verbatim>\<open>rand(min, max)\<close>; \<open>u\<close> is the value of \<^verbatim>\<open>Math.random()\<close>.\<close>

definition rand :: "real \<Rightarrow> real \<Rightarrow> real \<Rightarrow> real" where
  "rand u lo hi = u * (hi - lo) + lo"

text \<open>\<^verbatim>\<open>Math.round\<close> rounds to the nearest integer, a tie towards \<open>+\<infinity>\<close>.\<close>

definition Math_round :: "real \<Rightarrow> real" where
  "Math_round x = of_int \<lfloor>x + 1 / 2\<rfloor>"

subsection \<open>The canvas size \<^verbatim>\<open>state\<close> (line 12) and the circle body (lines 65--84)\<close>

record state =
  w :: real
  h :: real
  dpr :: real

record Ball =
  px :: real
  py :: real
  vx :: real
  vy :: real
  r :: real
  m :: real

text \<open>The constructor (lines 66--73).\<close>

definition new_Ball :: "real \<Rightarrow> real \<Rightarrow> real \<Rightarrow> Ball" where
  "new_Ball x y rad = \<lparr>px = x, py = y, vx = 0, vy = 0, r = rad, m = pi * rad * rad\<rparr>"

text \<open>\<^verbatim>\<open>integrate(dt)\<close> (lines 74--80); \<open>g\<close> is the module constant \<^verbatim>\<open>G\<close>.\<close>

definition integrate :: "real \<Rightarrow> real \<Rightarrow> Ball \<Rightarrow> Ball" where
  "integrate g dt b =
     (let b = b\<lparr>vy := vy b + g * dt\<rparr>;
          drag = exp (- AIR_DRAG * dt * 1000);
          b = b\<lparr>vx := vx b * drag\<rparr>;
          b = b\<lparr>vy := vy b * drag\<rparr>;
          b = b\<lparr>px := px b + vx b * dt\<rparr>;
          b = b\<lparr>py := py b + vy b * dt\<rparr>
      in b)"

subsection \<open>Ball against the walls (lines 89--102)\<close>

text \<open>
  \<^verbatim>\<open>collideWalls\<close> is four \<^verbatim>\<open>if\<close> statements in sequence, one per wall; each is a
  function here, named after the wall, and \<open>collideWalls\<close> runs them in the source's order.
\<close>

definition collideWalls_left :: "Ball \<Rightarrow> Ball" where
  "collideWalls_left b =
     (if px b - r b < 0 then
        (let b = b\<lparr>px := r b\<rparr>; b = b\<lparr>vx := - vx b * RESTITUTION\<rparr> in b)
      else b)"

definition collideWalls_right :: "state \<Rightarrow> Ball \<Rightarrow> Ball" where
  "collideWalls_right st b =
     (if px b + r b > w st then
        (let b = b\<lparr>px := w st - r b\<rparr>; b = b\<lparr>vx := - vx b * RESTITUTION\<rparr> in b)
      else b)"

definition collideWalls_top :: "Ball \<Rightarrow> Ball" where
  "collideWalls_top b =
     (if py b - r b < 0 then
        (let b = b\<lparr>py := r b\<rparr>; b = b\<lparr>vy := - vy b * RESTITUTION\<rparr> in b)
      else b)"

definition collideWalls_bottom :: "state \<Rightarrow> Ball \<Rightarrow> Ball" where
  "collideWalls_bottom st b =
     (if py b + r b > h st then
        (let b = b\<lparr>py := h st - r b\<rparr>;
             b = b\<lparr>vy := - vy b * RESTITUTION\<rparr>;
             onGround = (\<bar>py b + r b - h st\<bar> < 5 / 10 \<and> \<bar>vy b\<bar> < 50)
         in if onGround then
              (let b = b\<lparr>vx := vx b * (1 - FRICTION)\<rparr>
               in if \<bar>vx b\<bar> < 2 then b\<lparr>vx := 0\<rparr> else b)
            else b)
      else b)"

definition collideWalls :: "state \<Rightarrow> Ball \<Rightarrow> Ball" where
  "collideWalls st b =
     collideWalls_bottom st (collideWalls_top (collideWalls_right st (collideWalls_left b)))"

subsection \<open>Ball against ball (lines 105--137)\<close>

text \<open>
  The positional correction (lines 113--118), given the normal \<open>(nx, ny)\<close>, the sum of the
  radii and the distance \<open>d\<close> computed before it.
\<close>

definition collideBalls_correction ::
  "real \<Rightarrow> real \<Rightarrow> real \<Rightarrow> real \<Rightarrow> Ball \<Rightarrow> Ball \<Rightarrow> Ball \<times> Ball" where
  "collideBalls_correction nx ny radii d a b =
     (let penetration = radii - d;
          totalMass = m a + m b;
          corrA = penetration * (m b / totalMass);
          corrB = penetration * (m a / totalMass);
          a = a\<lparr>px := px a - nx * corrA\<rparr>; a = a\<lparr>py := py a - ny * corrA\<rparr>;
          b = b\<lparr>px := px b + nx * corrB\<rparr>; b = b\<lparr>py := py b + ny * corrB\<rparr>
      in (a, b))"

text \<open>The impulse exchange (lines 120--136): the normal impulse, then the clamped tangential one.\<close>

definition collideBalls_impulse :: "real \<Rightarrow> real \<Rightarrow> Ball \<Rightarrow> Ball \<Rightarrow> Ball \<times> Ball" where
  "collideBalls_impulse nx ny a b =
     (let rvx = vx b - vx a; rvy = vy b - vy a;
          velAlongNormal = rvx * nx + rvy * ny
      in if velAlongNormal > 0 then (a, b)
         else
           (let e = RESTITUTION;
                j = - (1 + e) * velAlongNormal / (1 / m a + 1 / m b);
                impX = j * nx; impY = j * ny;
                a = a\<lparr>vx := vx a - impX / m a\<rparr>; a = a\<lparr>vy := vy a - impY / m a\<rparr>;
                b = b\<lparr>vx := vx b + impX / m b\<rparr>; b = b\<lparr>vy := vy b + impY / m b\<rparr>;
                tx = - ny; ty = nx;
                vTan = rvx * tx + rvy * ty;
                jt = - vTan / (1 / m a + 1 / m b);
                mu = 2 / 100;
                jtClamped = min (mu * \<bar>j\<bar>) (max (- mu * \<bar>j\<bar>) jt);
                a = a\<lparr>vx := vx a - (jtClamped * tx) / m a\<rparr>;
                a = a\<lparr>vy := vy a - (jtClamped * ty) / m a\<rparr>;
                b = b\<lparr>vx := vx b + (jtClamped * tx) / m b\<rparr>;
                b = b\<lparr>vy := vy b + (jtClamped * ty) / m b\<rparr>
            in (a, b)))"

text \<open>\<^verbatim>\<open>collideBalls(a, b)\<close>: the result is the pair of the two bodies after the call.\<close>

definition collideBalls :: "Ball \<Rightarrow> Ball \<Rightarrow> Ball \<times> Ball" where
  "collideBalls a b =
     (let dx = px b - px a; dy = py b - py a;
          dist2 = dx * dx + dy * dy; radii = r a + r b
      in if dist2 = 0 \<or> dist2 > radii * radii then (a, b)
         else
           (let dist = sqrt dist2;
                nx = (if dist \<noteq> 0 then dx / dist else 1);
                ny = (if dist \<noteq> 0 then dy / dist else 0);
                (a, b) = collideBalls_correction nx ny radii dist a b
            in collideBalls_impulse nx ny a b))"

subsection \<open>World step (lines 140--151)\<close>

text \<open>
  \<^verbatim>\<open>collideBalls(balls[i], balls[j])\<close> mutates the two objects the array holds at \<open>i\<close> and
  \<open>j\<close>; every object is pushed once, so for \<open>i \<noteq> j\<close> they are different objects.
\<close>

definition collide_at :: "nat \<Rightarrow> nat \<Rightarrow> Ball list \<Rightarrow> Ball list" where
  "collide_at i j bs = (case collideBalls (bs ! i) (bs ! j) of (a, b) \<Rightarrow> bs[i := a, j := b])"

text \<open>The two nested \<^verbatim>\<open>for\<close> loops over \<open>i < j < balls.length\<close> (lines 145--149).\<close>

definition collide_pairs :: "Ball list \<Rightarrow> Ball list" where
  "collide_pairs bs =
     fold (\<lambda>i bs. fold (\<lambda>j bs. collide_at i j bs) [i + 1 ..< length bs] bs) [0 ..< length bs] bs"

text \<open>One pass of the loop over \<open>s\<close> (lines 143--149).\<close>

definition substep :: "real \<Rightarrow> state \<Rightarrow> real \<Rightarrow> Ball list \<Rightarrow> Ball list" where
  "substep g st subDt bs =
     (let bs = map (integrate g subDt) bs;
          bs = map (collideWalls st) bs
      in collide_pairs bs)"

definition step :: "real \<Rightarrow> state \<Rightarrow> real \<Rightarrow> Ball list \<Rightarrow> Ball list" where
  "step g st dt bs =
     (let subDt = min MAX_DT dt / real SUBSTEPS
      in (substep g st subDt ^^ SUBSTEPS) bs)"

subsection \<open>Spawning (lines 170--179 and 219--239)\<close>

text \<open>\<^verbatim>\<open>balls.push(b); if (balls.length > MAX_BALLS) balls.shift();\<close> (lines 177--178, 236--237).\<close>

definition push_shift :: "Ball list \<Rightarrow> Ball \<Rightarrow> Ball list" where
  "push_shift bs b = (let bs = bs @ [b] in if length bs > MAX_BALLS then tl bs else bs)"

text \<open>
  The body \<^verbatim>\<open>spawnRandomBall\<close> creates (lines 171--176); \<open>u1\<close> to \<open>u5\<close> are the five values
  of \<^verbatim>\<open>Math.random()\<close>, in the order the function draws them.
\<close>

definition randomBall :: "state \<Rightarrow> real \<Rightarrow> real \<Rightarrow> real \<Rightarrow> real \<Rightarrow> real \<Rightarrow> Ball" where
  "randomBall st u1 u2 u3 u4 u5 =
     (let rad = Math_round (rand u1 72 94);
          x = rand u2 (rad + 8) (w st - rad - 8);
          y = - rad - rand u3 10 60;
          b = new_Ball x y rad;
          b = b\<lparr>vx := rand u4 (- 40) 40\<rparr>;
          b = b\<lparr>vy := rand u5 (- 20) 10\<rparr>
      in b)"

definition spawnRandomBall ::
  "state \<Rightarrow> real \<Rightarrow> real \<Rightarrow> real \<Rightarrow> real \<Rightarrow> real \<Rightarrow> Ball list \<Rightarrow> Ball list" where
  "spawnRandomBall st u1 u2 u3 u4 u5 bs = push_shift bs (randomBall st u1 u2 u3 u4 u5)"

text \<open>
  \<^verbatim>\<open>dragStart\<close> (line 208, set by the \<^verbatim>\<open>mousedown\<close> handler to an object with the
  fields \<^verbatim>\<open>t\<close>, \<^verbatim>\<open>x\<close>, \<^verbatim>\<open>y\<close>) is \<open>None\<close> for \<^verbatim>\<open>null\<close>. The
  \<^verbatim>\<open>mouseup\<close> handler gets the point of the event \<open>(ex, ey)\<close>, the time \<open>now\<close> and three
  values of \<^verbatim>\<open>Math.random()\<close>.
\<close>

record drag =
  drag_t :: real
  drag_x :: real
  drag_y :: real

definition mouseupBall ::
  "state \<Rightarrow> drag option \<Rightarrow> real \<Rightarrow> real \<Rightarrow> real \<Rightarrow> real \<Rightarrow> real \<Rightarrow> real \<Rightarrow> Ball" where
  "mouseupBall st dragStart ex ey now u1 u2 u3 =
     (let rad = Math_round (rand u1 72 94);
          b = new_Ball ex ey rad;
          b = (case dragStart of
                 None \<Rightarrow> b
               | Some d \<Rightarrow>
                   (let dt = max 16 (now - drag_t d) / 1000;
                        b = b\<lparr>vx := (ex - drag_x d) / dt * (25 / 100)\<rparr>;
                        b = b\<lparr>vy := (ey - drag_y d) / dt * (25 / 100)\<rparr>
                    in b));
          b = b\<lparr>py := min (py b) (h st - rad - 1)\<rparr>;
          b = b\<lparr>px := px b + rand u2 (- (2 / 10)) (2 / 10)\<rparr>;
          b = b\<lparr>py := py b + rand u3 (- (2 / 10)) (2 / 10)\<rparr>
      in b)"

text \<open>The handler returns the array and the new value of \<^verbatim>\<open>dragStart\<close>, \<^verbatim>\<open>null\<close>.\<close>

definition mouseup ::
  "state \<Rightarrow> drag option \<Rightarrow> real \<Rightarrow> real \<Rightarrow> real \<Rightarrow> real \<Rightarrow> real \<Rightarrow> real \<Rightarrow> Ball list
     \<Rightarrow> Ball list \<times> drag option" where
  "mouseup st dragStart ex ey now u1 u2 u3 bs =
     (push_shift bs (mouseupBall st dragStart ex ey now u1 u2 u3), None)"

text \<open>
  A spawn operation with everything it reads from the environment: the timer's callback,
  or a \<^verbatim>\<open>mouseup\<close> event together with the value of \<^verbatim>\<open>dragStart\<close> it finds.
\<close>

datatype spawn_op =
  Scheduled real real real real real
| PointerUp "drag option" real real real real real real

fun created :: "state \<Rightarrow> spawn_op \<Rightarrow> Ball" where
  "created st (Scheduled u1 u2 u3 u4 u5) = randomBall st u1 u2 u3 u4 u5"
| "created st (PointerUp d ex ey now u1 u2 u3) = mouseupBall st d ex ey now u1 u2 u3"

fun spawn :: "state \<Rightarrow> spawn_op \<Rightarrow> Ball list \<Rightarrow> Ball list" where
  "spawn st (Scheduled u1 u2 u3 u4 u5) bs = spawnRandomBall st u1 u2 u3 u4 u5 bs"
| "spawn st (PointerUp d ex ey now u1 u2 u3) bs = fst (mouseup st d ex ey now u1 u2 u3 bs)"

text \<open>
  The operations run in order, from the array as it is; each comes with the canvas size
  at the time it runs (a resize may change it between two of them).
\<close>

fun spawn_all :: "(state \<times> spawn_op) list \<Rightarrow> Ball list \<Rightarrow> Ball list" where
  "spawn_all [] bs = bs"
| "spawn_all ((st, op) # ops) bs = spawn_all ops (spawn st op bs)"

section \<open>Properties\<close>

subsection \<open>The population: oldest-first eviction\<close>

lemma push_shift_length:
  "length bs \<le> MAX_BALLS \<Longrightarrow> length (push_shift bs b) \<le> MAX_BALLS"
  by (auto simp: push_shift_def MAX_BALLS_def Let_def)

lemma spawn_push_shift: "spawn st op bs = push_shift bs (created st op)"
  by (cases op) (simp_all add: spawnRandomBall_def mouseup_def)

lemma spawn_all_drop:
  "length bs \<le> MAX_BALLS \<Longrightarrow>
   spawn_all ops bs
     = drop (length bs + length ops - MAX_BALLS) (bs @ map (\<lambda>(st, op). created st op) ops)"
proof (induction ops arbitrary: bs)
  case Nil
  then show ?case by simp
next
  case (Cons sop ops)
  obtain st op where sop: "sop = (st, op)" by (cases sop)
  let ?c = "created st op"
  let ?cs = "map (\<lambda>(st, op). created st op) ops"
  have len: "length (push_shift bs ?c) \<le> MAX_BALLS"
    using Cons.prems by (rule push_shift_length)
  have "spawn_all (sop # ops) bs = spawn_all ops (push_shift bs ?c)"
    by (simp add: sop spawn_push_shift)
  also have "\<dots> = drop (length (push_shift bs ?c) + length ops - MAX_BALLS)
                     (push_shift bs ?c @ ?cs)"
    using len by (rule Cons.IH)
  also have "\<dots> = drop (length bs + length (sop # ops) - MAX_BALLS)
                     (bs @ map (\<lambda>(st, op). created st op) (sop # ops))"
  proof (cases "length bs < MAX_BALLS")
    case True
    then have "push_shift bs ?c = bs @ [?c]"
      by (simp add: push_shift_def Let_def)
    then show ?thesis by (simp add: sop)
  next
    case False
    with Cons.prems have eq: "length bs = MAX_BALLS" by simp
    then have ps: "push_shift bs ?c = tl (bs @ [?c])"
      by (simp add: push_shift_def Let_def)
    have "drop (length (tl (bs @ [?c])) + length ops - MAX_BALLS) (tl (bs @ [?c]) @ ?cs)
          = drop (length ops) (tl (bs @ ?c # ?cs))"
      using eq by (cases bs) (simp_all add: MAX_BALLS_def)
    also have "\<dots> = drop (Suc (length ops)) (bs @ ?c # ?cs)"
      by (simp only: drop_Suc)
    finally show ?thesis using eq ps by (simp add: sop)
  qed
  finally show ?case .
qed

text \<open>
  Claim C1. Starting from the empty array, after any sequence of spawn operations (the
  timer's \<^verbatim>\<open>spawnRandomBall\<close> or a \<^verbatim>\<open>mouseup\<close>) the array holds at most \<open>MAX_BALLS = 4\<close>
  bodies, and they are the last bodies created, in the order of their creation: a suffix
  of the spawn sequence. A single spawn appends the new body and, when the array is
  already full, removes exactly the body at index 0.
\<close>

theorem C1_population_bound:
  "MAX_BALLS = 4
   \<and> length (spawn_all ops []) \<le> MAX_BALLS
   \<and> spawn_all ops [] = drop (length ops - MAX_BALLS) (map (\<lambda>(st, op). created st op) ops)
   \<and> spawn st op bs =
       (if length bs < MAX_BALLS then bs @ [created st op] else tl bs @ [created st op])"
proof -
  have a: "spawn_all ops [] = drop (length ops - MAX_BALLS) (map (\<lambda>(st, op). created st op) ops)"
    using spawn_all_drop [of "[]" ops] by simp
  have b: "length (spawn_all ops []) \<le> MAX_BALLS"
    unfolding a by simp
  have c: "spawn st op bs =
       (if length bs < MAX_BALLS then bs @ [created st op] else tl bs @ [created st op])"
    by (cases bs) (simp_all add: spawn_push_shift push_shift_def Let_def MAX_BALLS_def)
  show ?thesis using a b c by (simp add: MAX_BALLS_def)
qed

subsection \<open>The integrator\<close>

text \<open>
  Claim C2. \<^verbatim>\<open>integrate(dt)\<close> adds \<open>G * dt\<close> to \<open>vy\<close>, multiplies both velocity components
  by \<open>exp (- AIR_DRAG * dt * 1000)\<close>, then advances the position by the velocity after the
  drag times \<open>dt\<close>; the radius and the mass are unchanged. It holds for every \<open>dt\<close>.
\<close>

theorem C2_integrate:
  "integrate g dt b =
     \<lparr>px = px b + (vx b * exp (- AIR_DRAG * dt * 1000)) * dt,
      py = py b + ((vy b + g * dt) * exp (- AIR_DRAG * dt * 1000)) * dt,
      vx = vx b * exp (- AIR_DRAG * dt * 1000),
      vy = (vy b + g * dt) * exp (- AIR_DRAG * dt * 1000),
      r = r b, m = m b\<rparr>"
  by (simp add: integrate_def Let_def)

subsection \<open>The early exit of the pairwise resolver\<close>

text \<open>
  Claim C5. When the squared distance of the two centres is zero, or exceeds the square
  of the sum of the radii, \<^verbatim>\<open>collideBalls(a, b)\<close> returns with both bodies as they were.
  The function has no failing branch: it returns a pair of bodies on every input.
\<close>

theorem C5_early_exit:
  "(px b - px a) * (px b - px a) + (py b - py a) * (py b - py a) = 0
   \<or> (px b - px a) * (px b - px a) + (py b - py a) * (py b - py a) > (r a + r b) * (r a + r b)
   \<Longrightarrow> collideBalls a b = (a, b)"
  by (auto simp: collideBalls_def Let_def)

theorem C5_early_exit_witness:
  "collideBalls (new_Ball 0 0 50) (new_Ball 200 0 50) = (new_Ball 0 0 50, new_Ball 200 0 50)
   \<and> collideBalls (new_Ball 3 4 50) (new_Ball 3 4 50) = (new_Ball 3 4 50, new_Ball 3 4 50)"
  using C5_early_exit [of "new_Ball 200 0 50" "new_Ball 0 0 50"]
    C5_early_exit [of "new_Ball 3 4 50" "new_Ball 3 4 50"]
  by (simp add: new_Ball_def)

subsection \<open>Mass and radius are never written after the constructor\<close>

lemma integrate_frame: "r (integrate g dt b) = r b \<and> m (integrate g dt b) = m b"
  by (simp add: integrate_def Let_def)

lemma collideWalls_frame: "r (collideWalls st b) = r b \<and> m (collideWalls st b) = m b"
  by (simp add: collideWalls_def collideWalls_left_def collideWalls_right_def
      collideWalls_top_def collideWalls_bottom_def Let_def)

lemma correction_frame:
  "r (fst (collideBalls_correction nx ny radii d a b)) = r a
   \<and> m (fst (collideBalls_correction nx ny radii d a b)) = m a
   \<and> r (snd (collideBalls_correction nx ny radii d a b)) = r b
   \<and> m (snd (collideBalls_correction nx ny radii d a b)) = m b"
  by (simp add: collideBalls_correction_def Let_def)

lemma impulse_frame:
  "r (fst (collideBalls_impulse nx ny a b)) = r a
   \<and> m (fst (collideBalls_impulse nx ny a b)) = m a
   \<and> r (snd (collideBalls_impulse nx ny a b)) = r b
   \<and> m (snd (collideBalls_impulse nx ny a b)) = m b"
  by (simp add: collideBalls_impulse_def Let_def)

lemma collideBalls_frame:
  "r (fst (collideBalls a b)) = r a \<and> m (fst (collideBalls a b)) = m a
   \<and> r (snd (collideBalls a b)) = r b \<and> m (snd (collideBalls a b)) = m b"
proof -
  have "r (fst (case p of (a', b') \<Rightarrow> collideBalls_impulse nx ny a' b')) = r (fst p)
      \<and> m (fst (case p of (a', b') \<Rightarrow> collideBalls_impulse nx ny a' b')) = m (fst p)
      \<and> r (snd (case p of (a', b') \<Rightarrow> collideBalls_impulse nx ny a' b')) = r (snd p)
      \<and> m (snd (case p of (a', b') \<Rightarrow> collideBalls_impulse nx ny a' b')) = m (snd p)"
    for p nx ny
    by (cases p) (simp add: impulse_frame)
  then show ?thesis
    by (simp add: collideBalls_def Let_def correction_frame)
qed

lemma map_update_same:
  assumes "f v = f (xs ! i)"
  shows "map f (xs[i := v]) = map f xs"
proof (cases "i < length xs")
  case True
  with assms show ?thesis by (simp add: map_update list_update_same_conv)
next
  case False
  then have "xs[i := v] = xs" by (intro list_update_beyond) simp
  then show ?thesis by simp
qed

lemma nth_update_same:
  assumes "f v = f (xs ! i)"
  shows "f (xs[i := v] ! j) = f (xs ! j)"
proof (cases "i < length xs \<and> i = j")
  case True
  then have "xs[i := v] ! j = v" by simp
  with assms True show ?thesis by simp
next
  case False
  then have "xs[i := v] ! j = xs ! j"
    by (cases "i = j") (simp_all add: not_less list_update_beyond)
  then show ?thesis by simp
qed

lemma collide_at_frame_gen:
  assumes "\<And>a b. f (fst (collideBalls a b)) = f a \<and> f (snd (collideBalls a b)) = f b"
  shows "map f (collide_at i j bs) = map f bs"
proof -
  obtain a b where ab: "collideBalls (bs ! i) (bs ! j) = (a, b)"
    by (cases "collideBalls (bs ! i) (bs ! j)")
  from assms [of "bs ! i" "bs ! j"] ab
  have fa: "f a = f (bs ! i)" and fb: "f b = f (bs ! j)"
    by simp_all
  have "f (bs[i := a] ! j) = f (bs ! j)"
    using fa by (rule nth_update_same)
  with fb have "f b = f (bs[i := a] ! j)" by simp
  then have "map f (bs[i := a, j := b]) = map f (bs[i := a])"
    by (rule map_update_same)
  also have "\<dots> = map f bs"
    using fa by (rule map_update_same)
  finally show ?thesis by (simp add: collide_at_def ab)
qed

lemma collide_at_frame:
  "map r (collide_at i j bs) = map r bs \<and> map m (collide_at i j bs) = map m bs"
  by (simp add: collide_at_frame_gen collideBalls_frame)

lemma fold_frame:
  "(\<And>x ys. map f (body x ys) = map f ys) \<Longrightarrow> map f (fold body xs bs) = map f bs"
  by (induction xs arbitrary: bs) simp_all

lemma collide_pairs_frame:
  "map r (collide_pairs bs) = map r bs \<and> map m (collide_pairs bs) = map m bs"
proof -
  have inner: "map f (fold (\<lambda>j bs. collide_at i j bs) js cs) = map f cs"
    if "\<And>i j bs. map f (collide_at i j bs) = map f bs" for f :: "Ball \<Rightarrow> real" and i js cs
    using that by (intro fold_frame)
  have outer: "map f (collide_pairs bs) = map f bs"
    if "\<And>i j bs. map f (collide_at i j bs) = map f bs" for f :: "Ball \<Rightarrow> real"
    unfolding collide_pairs_def
    by (rule fold_frame) (rule inner [OF that])
  show ?thesis
    by (simp add: outer collide_at_frame)
qed

lemma substep_frame:
  "map r (substep g st dt bs) = map r bs \<and> map m (substep g st dt bs) = map m bs"
  by (simp add: substep_def Let_def collide_pairs_frame comp_def integrate_frame collideWalls_frame)

lemma funpow_frame:
  "(\<And>ys. map f (body ys) = map f ys) \<Longrightarrow> map f ((body ^^ n) bs) = map f bs"
  by (induction n) simp_all

lemma step_frame:
  "map r (step g st dt bs) = map r bs \<and> map m (step g st dt bs) = map m bs"
  by (simp add: step_def Let_def funpow_frame substep_frame)

text \<open>
  Claim C10. The constructor sets the mass to \<open>\<pi> * r\<^sup>2\<close>, and every body a spawn
  operation pushes still has that mass; \<^verbatim>\<open>integrate\<close>, \<^verbatim>\<open>collideWalls\<close>, \<^verbatim>\<open>collideBalls\<close>
  (for both bodies) and \<^verbatim>\<open>step\<close> (for every body of the array, which keeps its length)
  leave the mass and the radius of a body as they are.
\<close>

theorem C10_mass_radius_frame:
  "m (new_Ball x0 y0 rad) = pi * rad\<^sup>2 \<and> r (new_Ball x0 y0 rad) = rad
   \<and> m (created st op) = pi * (r (created st op))\<^sup>2
   \<and> m (integrate g dt b) = m b \<and> r (integrate g dt b) = r b
   \<and> m (collideWalls st b) = m b \<and> r (collideWalls st b) = r b
   \<and> m (fst (collideBalls a b)) = m a \<and> r (fst (collideBalls a b)) = r a
   \<and> m (snd (collideBalls a b)) = m b \<and> r (snd (collideBalls a b)) = r b
   \<and> map m (step g st dt bs) = map m bs \<and> map r (step g st dt bs) = map r bs
   \<and> length (step g st dt bs) = length bs"
proof -
  have "length (step g st dt bs) = length (map m (step g st dt bs))" by simp
  also have "\<dots> = length bs" by (simp only: step_frame length_map)
  finally have len: "length (step g st dt bs) = length bs" .
  have cr: "m (created st op) = pi * (r (created st op))\<^sup>2"
    by (cases op)
      (simp_all add: randomBall_def mouseupBall_def new_Ball_def Let_def power2_eq_square
        split: option.split)
  show ?thesis
    using len cr
    by (simp add: integrate_frame collideWalls_frame collideBalls_frame step_frame
        new_Ball_def power2_eq_square)
qed

subsection \<open>Bouncing off the walls\<close>

lemma restitution_shrinks: "\<bar>v * RESTITUTION\<bar> \<le> \<bar>v\<bar>"
proof -
  have "\<bar>v * RESTITUTION\<bar> = \<bar>v\<bar> * (84 / 100)"
    by (simp add: RESTITUTION_def abs_mult)
  also have "\<dots> \<le> \<bar>v\<bar> * 1"
    by (intro mult_left_mono) simp_all
  finally show ?thesis by simp
qed

lemma left_speed: "\<bar>vx (collideWalls_left b)\<bar> \<le> \<bar>vx b\<bar> \<and> vy (collideWalls_left b) = vy b"
  by (simp add: collideWalls_left_def Let_def restitution_shrinks)

lemma right_speed:
  "\<bar>vx (collideWalls_right st b)\<bar> \<le> \<bar>vx b\<bar> \<and> vy (collideWalls_right st b) = vy b"
  by (simp add: collideWalls_right_def Let_def restitution_shrinks)

lemma top_speed: "\<bar>vy (collideWalls_top b)\<bar> \<le> \<bar>vy b\<bar> \<and> vx (collideWalls_top b) = vx b"
  by (simp add: collideWalls_top_def Let_def restitution_shrinks)

lemma friction_shrinks: "\<bar>v * (1 - FRICTION)\<bar> \<le> \<bar>v\<bar>"
proof -
  have "\<bar>v * (1 - FRICTION)\<bar> = \<bar>v\<bar> * (992 / 1000)"
    by (simp add: FRICTION_def abs_mult)
  also have "\<dots> \<le> \<bar>v\<bar> * 1"
    by (intro mult_left_mono) simp_all
  finally show ?thesis by simp
qed

lemma bottom_speed:
  "\<bar>vy (collideWalls_bottom st b)\<bar> \<le> \<bar>vy b\<bar> \<and> \<bar>vx (collideWalls_bottom st b)\<bar> \<le> \<bar>vx b\<bar>"
  by (simp add: collideWalls_bottom_def Let_def restitution_shrinks friction_shrinks)

lemma collideWalls_speed:
  "\<bar>vx (collideWalls st b)\<bar> \<le> \<bar>vx b\<bar> \<and> \<bar>vy (collideWalls st b)\<bar> \<le> \<bar>vy b\<bar>"
proof -
  let ?b1 = "collideWalls_left b"
  let ?b2 = "collideWalls_right st ?b1"
  let ?b3 = "collideWalls_top ?b2"
  have "\<bar>vx (collideWalls_bottom st ?b3)\<bar> \<le> \<bar>vx ?b3\<bar>" by (simp add: bottom_speed)
  also have "\<dots> = \<bar>vx ?b2\<bar>" by (simp add: top_speed)
  also have "\<dots> \<le> \<bar>vx ?b1\<bar>" by (simp add: right_speed)
  also have "\<dots> \<le> \<bar>vx b\<bar>" by (simp add: left_speed)
  finally have x: "\<bar>vx (collideWalls st b)\<bar> \<le> \<bar>vx b\<bar>" by (simp add: collideWalls_def)
  have "\<bar>vy (collideWalls_bottom st ?b3)\<bar> \<le> \<bar>vy ?b3\<bar>" by (simp add: bottom_speed)
  also have "\<dots> \<le> \<bar>vy ?b2\<bar>" by (simp add: top_speed)
  also have "\<dots> = \<bar>vy ?b1\<bar>" by (simp add: right_speed)
  also have "\<dots> = \<bar>vy b\<bar>" by (simp add: left_speed)
  finally have y: "\<bar>vy (collideWalls st b)\<bar> \<le> \<bar>vy b\<bar>" by (simp add: collideWalls_def)
  from x y show ?thesis ..
qed

text \<open>The fields after each of the four checks, and after the whole of \<^verbatim>\<open>collideWalls\<close>.\<close>

lemma left_fields:
  "px (collideWalls_left b) = (if px b - r b < 0 then r b else px b)
   \<and> vx (collideWalls_left b) = (if px b - r b < 0 then - vx b * RESTITUTION else vx b)
   \<and> py (collideWalls_left b) = py b \<and> vy (collideWalls_left b) = vy b
   \<and> r (collideWalls_left b) = r b"
  by (simp add: collideWalls_left_def Let_def)

lemma right_fields:
  "px (collideWalls_right st b) = (if w st < px b + r b then w st - r b else px b)
   \<and> vx (collideWalls_right st b) = (if w st < px b + r b then - vx b * RESTITUTION else vx b)
   \<and> py (collideWalls_right st b) = py b \<and> vy (collideWalls_right st b) = vy b
   \<and> r (collideWalls_right st b) = r b"
  by (simp add: collideWalls_right_def Let_def)

lemma top_fields:
  "py (collideWalls_top b) = (if py b - r b < 0 then r b else py b)
   \<and> vy (collideWalls_top b) = (if py b - r b < 0 then - vy b * RESTITUTION else vy b)
   \<and> px (collideWalls_top b) = px b \<and> vx (collideWalls_top b) = vx b
   \<and> r (collideWalls_top b) = r b"
  by (simp add: collideWalls_top_def Let_def)

lemma bottom_fields:
  "py (collideWalls_bottom st b) = (if h st < py b + r b then h st - r b else py b)
   \<and> vy (collideWalls_bottom st b) = (if h st < py b + r b then - vy b * RESTITUTION else vy b)
   \<and> px (collideWalls_bottom st b) = px b
   \<and> r (collideWalls_bottom st b) = r b
   \<and> vx (collideWalls_bottom st b) =
       (if h st < py b + r b \<and> \<bar>vy b * RESTITUTION\<bar> < 50
        then (if \<bar>vx b * (1 - FRICTION)\<bar> < 2 then 0 else vx b * (1 - FRICTION))
        else vx b)"
  by (simp add: collideWalls_bottom_def Let_def)


lemma collideWalls_px:
  "px (collideWalls st b) =
     (if px b - r b < 0 then (if w st < r b + r b then w st - r b else r b)
      else if w st < px b + r b then w st - r b else px b)"
proof -
  have "px (collideWalls st b) = px (collideWalls_right st (collideWalls_left b))"
    by (simp add: collideWalls_def bottom_fields top_fields)
  then show ?thesis
    by (cases "px b - r b < 0") (simp_all add: right_fields left_fields)
qed

lemma collideWalls_side_vx:
  "vx (collideWalls_right st (collideWalls_left b)) =
     (if px b - r b < 0
      then (if w st < r b + r b then vx b * RESTITUTION * RESTITUTION else - vx b * RESTITUTION)
      else if w st < px b + r b then - vx b * RESTITUTION else vx b)"
  by (cases "px b - r b < 0") (simp_all add: right_fields left_fields)

lemma collideWalls_py:
  "py (collideWalls st b) =
     (if py b - r b < 0 then (if h st < r b + r b then h st - r b else r b)
      else if h st < py b + r b then h st - r b else py b)"
proof -
  let ?c = "collideWalls_right st (collideWalls_left b)"
  have c: "py ?c = py b" "r ?c = r b" by (simp_all add: right_fields left_fields)
  have "py (collideWalls st b) = py (collideWalls_bottom st (collideWalls_top ?c))"
    by (simp add: collideWalls_def)
  then show ?thesis
    by (cases "py b - r b < 0") (simp_all add: bottom_fields top_fields c)
qed

lemma collideWalls_vy:
  "vy (collideWalls st b) =
     (if py b - r b < 0
      then (if h st < r b + r b then vy b * RESTITUTION * RESTITUTION else - vy b * RESTITUTION)
      else if h st < py b + r b then - vy b * RESTITUTION else vy b)"
proof -
  let ?c = "collideWalls_right st (collideWalls_left b)"
  have c: "py ?c = py b" "vy ?c = vy b" "r ?c = r b" by (simp_all add: right_fields left_fields)
  have "vy (collideWalls st b) = vy (collideWalls_bottom st (collideWalls_top ?c))"
    by (simp add: collideWalls_def)
  then show ?thesis
    by (cases "py b - r b < 0") (simp_all add: bottom_fields top_fields c)
qed

lemma collideWalls_vx:
  "vx (collideWalls st b) =
     (if h st < (if py b - r b < 0 then r b else py b) + r b
         \<and> \<bar>(if py b - r b < 0 then - vy b * RESTITUTION else vy b) * RESTITUTION\<bar> < 50
      then (if \<bar>vx (collideWalls_right st (collideWalls_left b)) * (1 - FRICTION)\<bar> < 2 then 0
            else vx (collideWalls_right st (collideWalls_left b)) * (1 - FRICTION))
      else vx (collideWalls_right st (collideWalls_left b)))"
proof -
  let ?c = "collideWalls_right st (collideWalls_left b)"
  let ?t = "collideWalls_top ?c"
  have c: "py ?c = py b" "vy ?c = vy b" "r ?c = r b" by (simp_all add: right_fields left_fields)
  have t: "py ?t = (if py b - r b < 0 then r b else py b)"
    "vy ?t = (if py b - r b < 0 then - vy b * RESTITUTION else vy b)"
    "r ?t = r b" "vx ?t = vx ?c"
    by (simp_all add: top_fields c)
  have "vx (collideWalls st b) = vx (collideWalls_bottom st ?t)"
    by (simp add: collideWalls_def)
  also have "\<dots> = (if h st < py ?t + r ?t \<and> \<bar>vy ?t * RESTITUTION\<bar> < 50
        then (if \<bar>vx ?t * (1 - FRICTION)\<bar> < 2 then 0 else vx ?t * (1 - FRICTION))
        else vx ?t)"
    by (simp only: bottom_fields)
  finally show ?thesis by (simp only: t)
qed

text \<open>
  Claim C3 says that whenever a wall check fires, the position on that axis is clamped to
  that wall and the normal velocity is negated and scaled by the restitution. The four
  checks run one after the other, so this fails when both checks of one axis fire: in a
  canvas 100 wide, a body of radius 80 at \<open>px = 50\<close> with \<open>vx = 100\<close> crosses the left wall,
  is put at \<open>px = 80\<close> with \<open>vx = - 84\<close>, then crosses the right wall and ends at \<open>px = 20\<close>
  with \<open>vx = 70.56\<close>: not at \<open>px = r\<close>, and not with the velocity negated.
\<close>

theorem C3_counterexample:
  "px \<lparr>px = 50, py = 300, vx = 100, vy = 0, r = 80, m = 1\<rparr>
     - r \<lparr>px = 50, py = 300, vx = 100, vy = 0, r = 80, m = 1\<rparr> < 0
   \<and> px (collideWalls \<lparr>w = 100, h = 600, dpr = 1\<rparr>
          \<lparr>px = 50, py = 300, vx = 100, vy = 0, r = 80, m = 1\<rparr>) = 20
   \<and> r \<lparr>px = 50, py = 300, vx = 100, vy = 0, r = 80, m = 1\<rparr> = 80
   \<and> vx (collideWalls \<lparr>w = 100, h = 600, dpr = 1\<rparr>
          \<lparr>px = 50, py = 300, vx = 100, vy = 0, r = 80, m = 1\<rparr>) = 1764 / 25
   \<and> - vx \<lparr>px = 50, py = 300, vx = 100, vy = 0, r = 80, m = 1\<rparr> * RESTITUTION = - 84"
  by (simp add: collideWalls_px collideWalls_vx collideWalls_side_vx RESTITUTION_def)

text \<open>
  Claim C3, amended. After \<^verbatim>\<open>collideWalls\<close>, on each axis: if one wall check fires and the
  check of the opposite wall does not fire after it, the position on that axis is the
  wall-tangent value (\<open>r\<close>, \<open>w - r\<close>, \<open>r\<close>, \<open>h - r\<close>) and the velocity component normal to the
  wall is the one before the call, negated and multiplied by \<open>RESTITUTION\<close>; if both checks
  of the axis fire, which needs a canvas narrower (lower) than the diameter, the body ends
  tangent to the right (bottom) wall and the component is multiplied by \<open>RESTITUTION\<^sup>2\<close>,
  not negated; if none fires, position and component are unchanged. After that, \<open>vx\<close> is
  damped or stopped by the ground friction of the same call when the bottom check fires
  with \<open>\<bar>vy\<bar> < 50\<close>. \<open>RESTITUTION\<close> is below 1, and in every case the speed along each axis
  after the call is at most the speed before it.
\<close>

theorem C3_wall_bounce:
  "px (collideWalls st b) =
     (if px b - r b < 0 then (if w st < r b + r b then w st - r b else r b)
      else if w st < px b + r b then w st - r b else px b)
   \<and> py (collideWalls st b) =
     (if py b - r b < 0 then (if h st < r b + r b then h st - r b else r b)
      else if h st < py b + r b then h st - r b else py b)
   \<and> vy (collideWalls st b) =
     (if py b - r b < 0
      then (if h st < r b + r b then vy b * RESTITUTION * RESTITUTION else - vy b * RESTITUTION)
      else if h st < py b + r b then - vy b * RESTITUTION else vy b)
   \<and> vx (collideWalls st b) =
     (if h st < (if py b - r b < 0 then r b else py b) + r b \<and> \<bar>vy (collideWalls st b)\<bar> < 50
      then (if \<bar>(if px b - r b < 0
              then (if w st < r b + r b then vx b * RESTITUTION * RESTITUTION
                    else - vx b * RESTITUTION)
              else if w st < px b + r b then - vx b * RESTITUTION else vx b) * (1 - FRICTION)\<bar> < 2 then 0
            else (if px b - r b < 0
              then (if w st < r b + r b then vx b * RESTITUTION * RESTITUTION
                    else - vx b * RESTITUTION)
              else if w st < px b + r b then - vx b * RESTITUTION else vx b) * (1 - FRICTION))
      else (if px b - r b < 0
              then (if w st < r b + r b then vx b * RESTITUTION * RESTITUTION
                    else - vx b * RESTITUTION)
              else if w st < px b + r b then - vx b * RESTITUTION else vx b))
   \<and> RESTITUTION < 1
   \<and> \<bar>vx (collideWalls st b)\<bar> \<le> \<bar>vx b\<bar>
   \<and> \<bar>vy (collideWalls st b)\<bar> \<le> \<bar>vy b\<bar>"
proof -
  have fire: "\<bar>vy (collideWalls st b)\<bar>
      = \<bar>(if py b - r b < 0 then - vy b * RESTITUTION else vy b) * RESTITUTION\<bar>"
    if "h st < (if py b - r b < 0 then r b else py b) + r b"
    using that by (simp add: collideWalls_vy split: if_splits)
  have x: "vx (collideWalls st b) =
     (if h st < (if py b - r b < 0 then r b else py b) + r b \<and> \<bar>vy (collideWalls st b)\<bar> < 50
      then (if \<bar>(if px b - r b < 0
              then (if w st < r b + r b then vx b * RESTITUTION * RESTITUTION
                    else - vx b * RESTITUTION)
              else if w st < px b + r b then - vx b * RESTITUTION else vx b) * (1 - FRICTION)\<bar> < 2 then 0
            else (if px b - r b < 0
              then (if w st < r b + r b then vx b * RESTITUTION * RESTITUTION
                    else - vx b * RESTITUTION)
              else if w st < px b + r b then - vx b * RESTITUTION else vx b) * (1 - FRICTION))
      else (if px b - r b < 0
              then (if w st < r b + r b then vx b * RESTITUTION * RESTITUTION
                    else - vx b * RESTITUTION)
              else if w st < px b + r b then - vx b * RESTITUTION else vx b))"
    unfolding collideWalls_vx [of st b] collideWalls_side_vx [of st b]
    using fire by (cases "h st < (if py b - r b < 0 then r b else py b) + r b") simp_all
  have e: "RESTITUTION < 1" by (simp add: RESTITUTION_def)
  have sx: "\<bar>vx (collideWalls st b)\<bar> \<le> \<bar>vx b\<bar>"
    and sy: "\<bar>vy (collideWalls st b)\<bar> \<le> \<bar>vy b\<bar>"
    by (simp_all only: collideWalls_speed)
  show ?thesis
    by (intro conjI collideWalls_px collideWalls_py collideWalls_vy x e sx sy)
qed

theorem C3_wall_bounce_witness:
  "px (collideWalls \<lparr>w = 800, h = 600, dpr = 1\<rparr>
         \<lparr>px = 10, py = 590, vx = - 30, vy = 500, r = 80, m = 1\<rparr>) = 80
   \<and> py (collideWalls \<lparr>w = 800, h = 600, dpr = 1\<rparr>
         \<lparr>px = 10, py = 590, vx = - 30, vy = 500, r = 80, m = 1\<rparr>) = 520
   \<and> vy (collideWalls \<lparr>w = 800, h = 600, dpr = 1\<rparr>
         \<lparr>px = 10, py = 590, vx = - 30, vy = 500, r = 80, m = 1\<rparr>) = - 420
   \<and> vx (collideWalls \<lparr>w = 800, h = 600, dpr = 1\<rparr>
         \<lparr>px = 10, py = 590, vx = - 30, vy = 500, r = 80, m = 1\<rparr>) = 126 / 5"
  using C3_wall_bounce [of "\<lparr>w = 800, h = 600, dpr = 1\<rparr>"
      "\<lparr>px = 10, py = 590, vx = - 30, vy = 500, r = 80, m = 1\<rparr>"]
  by (simp add: RESTITUTION_def)

subsection \<open>Ground friction\<close>

text \<open>
  Claim C6 says that a body within 0.5 of resting on the floor with \<open>\<bar>vy\<bar> < 50\<close> has \<open>vx\<close>
  multiplied by \<open>1 - FRICTION\<close> and stopped below 2. The friction is inside the branch of the
  bottom check: a body 0.2 above the floor that does not reach below it keeps its \<open>vx\<close>, be
  it 100 (the claim gives 99.2) or 1 (the claim gives 0).
\<close>

theorem C6_counterexample:
  "\<bar>py \<lparr>px = 400, py = 5198 / 10, vx = 100, vy = 10, r = 80, m = 1\<rparr>
      + r \<lparr>px = 400, py = 5198 / 10, vx = 100, vy = 10, r = 80, m = 1\<rparr>
      - h \<lparr>w = 800, h = 600, dpr = 1\<rparr>\<bar> < 5 / 10
   \<and> \<bar>vy \<lparr>px = 400, py = 5198 / 10, vx = 100, vy = 10, r = 80, m = 1\<rparr>\<bar> < 50
   \<and> collideWalls \<lparr>w = 800, h = 600, dpr = 1\<rparr>
         \<lparr>px = 400, py = 5198 / 10, vx = 100, vy = 10, r = 80, m = 1\<rparr>
       = \<lparr>px = 400, py = 5198 / 10, vx = 100, vy = 10, r = 80, m = 1\<rparr>
   \<and> 100 * (1 - FRICTION) = 496 / 5
   \<and> collideWalls \<lparr>w = 800, h = 600, dpr = 1\<rparr>
         \<lparr>px = 400, py = 5198 / 10, vx = 1, vy = 10, r = 80, m = 1\<rparr>
       = \<lparr>px = 400, py = 5198 / 10, vx = 1, vy = 10, r = 80, m = 1\<rparr>"
  by (simp add: collideWalls_def collideWalls_left_def collideWalls_right_def
      collideWalls_top_def collideWalls_bottom_def FRICTION_def)

text \<open>
  Claim C6, amended. In \<^verbatim>\<open>collideWalls\<close> the ground friction belongs to the bottom check. When
  that check fires (the body, after the top check, reaches below the floor), the body is
  put at \<open>py = h - r\<close>, where the position test \<open>\<bar>py + r - h\<bar> < 0.5\<close> holds, and \<open>vy\<close> is
  reflected; if then \<open>\<bar>vy\<bar> < 50\<close>, the \<open>vx\<close> left by the side-wall checks is multiplied by
  \<open>1 - FRICTION\<close> (\<open>FRICTION = 0.008\<close>) and set to 0 if its absolute value is then below 2;
  otherwise it is kept. When the bottom check does not fire there is no friction and no
  stop, also for a body within 0.5 of the floor with \<open>\<bar>vy\<bar> < 50\<close>.
\<close>

theorem C6_ground_friction:
  "FRICTION = 8 / 1000
   \<and> (h st < (if py b - r b < 0 then r b else py b) + r b \<longrightarrow>
        py (collideWalls st b) = h st - r b
        \<and> \<bar>py (collideWalls st b) + r (collideWalls st b) - h st\<bar> < 5 / 10
        \<and> vy (collideWalls st b)
            = - (if py b - r b < 0 then - vy b * RESTITUTION else vy b) * RESTITUTION
        \<and> vx (collideWalls st b) =
            (if \<bar>vy (collideWalls st b)\<bar> < 50
             then (if \<bar>(if px b - r b < 0
              then (if w st < r b + r b then vx b * RESTITUTION * RESTITUTION
                    else - vx b * RESTITUTION)
              else if w st < px b + r b then - vx b * RESTITUTION else vx b) * (1 - FRICTION)\<bar> < 2 then 0
                   else (if px b - r b < 0
              then (if w st < r b + r b then vx b * RESTITUTION * RESTITUTION
                    else - vx b * RESTITUTION)
              else if w st < px b + r b then - vx b * RESTITUTION else vx b) * (1 - FRICTION))
             else (if px b - r b < 0
              then (if w st < r b + r b then vx b * RESTITUTION * RESTITUTION
                    else - vx b * RESTITUTION)
              else if w st < px b + r b then - vx b * RESTITUTION else vx b)))
   \<and> (\<not> h st < (if py b - r b < 0 then r b else py b) + r b \<longrightarrow>
        vx (collideWalls st b) = (if px b - r b < 0
              then (if w st < r b + r b then vx b * RESTITUTION * RESTITUTION
                    else - vx b * RESTITUTION)
              else if w st < px b + r b then - vx b * RESTITUTION else vx b))"
proof -
  let ?fires = "h st < (if py b - r b < 0 then r b else py b) + r b"
  have f: "FRICTION = 8 / 1000" by (simp add: FRICTION_def)
  have rr: "r (collideWalls st b) = r b" by (simp add: collideWalls_frame)
  have yes: "?fires \<longrightarrow>
        py (collideWalls st b) = h st - r b
        \<and> \<bar>py (collideWalls st b) + r (collideWalls st b) - h st\<bar> < 5 / 10
        \<and> vy (collideWalls st b)
            = - (if py b - r b < 0 then - vy b * RESTITUTION else vy b) * RESTITUTION
        \<and> vx (collideWalls st b) =
            (if \<bar>vy (collideWalls st b)\<bar> < 50
             then (if \<bar>(if px b - r b < 0
              then (if w st < r b + r b then vx b * RESTITUTION * RESTITUTION
                    else - vx b * RESTITUTION)
              else if w st < px b + r b then - vx b * RESTITUTION else vx b) * (1 - FRICTION)\<bar> < 2 then 0
                   else (if px b - r b < 0
              then (if w st < r b + r b then vx b * RESTITUTION * RESTITUTION
                    else - vx b * RESTITUTION)
              else if w st < px b + r b then - vx b * RESTITUTION else vx b) * (1 - FRICTION))
             else (if px b - r b < 0
              then (if w st < r b + r b then vx b * RESTITUTION * RESTITUTION
                    else - vx b * RESTITUTION)
              else if w st < px b + r b then - vx b * RESTITUTION else vx b))"
  proof
    assume fires: ?fires
    have y: "py (collideWalls st b) = h st - r b"
      using fires by (simp add: collideWalls_py split: if_splits)
    have v: "vy (collideWalls st b)
            = - (if py b - r b < 0 then - vy b * RESTITUTION else vy b) * RESTITUTION"
      using fires by (simp add: collideWalls_vy split: if_splits)
    have eps: "\<bar>py (collideWalls st b) + r (collideWalls st b) - h st\<bar> < 5 / 10"
      by (simp add: y rr)
    have av: "\<bar>vy (collideWalls st b)\<bar>
        = \<bar>(if py b - r b < 0 then - vy b * RESTITUTION else vy b) * RESTITUTION\<bar>"
      by (simp add: v)
    have x: "vx (collideWalls st b) =
            (if \<bar>vy (collideWalls st b)\<bar> < 50
             then (if \<bar>(if px b - r b < 0
              then (if w st < r b + r b then vx b * RESTITUTION * RESTITUTION
                    else - vx b * RESTITUTION)
              else if w st < px b + r b then - vx b * RESTITUTION else vx b) * (1 - FRICTION)\<bar> < 2 then 0
                   else (if px b - r b < 0
              then (if w st < r b + r b then vx b * RESTITUTION * RESTITUTION
                    else - vx b * RESTITUTION)
              else if w st < px b + r b then - vx b * RESTITUTION else vx b) * (1 - FRICTION))
             else (if px b - r b < 0
              then (if w st < r b + r b then vx b * RESTITUTION * RESTITUTION
                    else - vx b * RESTITUTION)
              else if w st < px b + r b then - vx b * RESTITUTION else vx b))"
      unfolding av collideWalls_vx [of st b] collideWalls_side_vx [of st b]
      using fires by simp
    from y eps v x show "py (collideWalls st b) = h st - r b
        \<and> \<bar>py (collideWalls st b) + r (collideWalls st b) - h st\<bar> < 5 / 10
        \<and> vy (collideWalls st b)
            = - (if py b - r b < 0 then - vy b * RESTITUTION else vy b) * RESTITUTION
        \<and> vx (collideWalls st b) =
            (if \<bar>vy (collideWalls st b)\<bar> < 50
             then (if \<bar>(if px b - r b < 0
              then (if w st < r b + r b then vx b * RESTITUTION * RESTITUTION
                    else - vx b * RESTITUTION)
              else if w st < px b + r b then - vx b * RESTITUTION else vx b) * (1 - FRICTION)\<bar> < 2 then 0
                   else (if px b - r b < 0
              then (if w st < r b + r b then vx b * RESTITUTION * RESTITUTION
                    else - vx b * RESTITUTION)
              else if w st < px b + r b then - vx b * RESTITUTION else vx b) * (1 - FRICTION))
             else (if px b - r b < 0
              then (if w st < r b + r b then vx b * RESTITUTION * RESTITUTION
                    else - vx b * RESTITUTION)
              else if w st < px b + r b then - vx b * RESTITUTION else vx b))"
      by (intro conjI)
  qed
  have no: "\<not> ?fires \<longrightarrow> vx (collideWalls st b) = (if px b - r b < 0
              then (if w st < r b + r b then vx b * RESTITUTION * RESTITUTION
                    else - vx b * RESTITUTION)
              else if w st < px b + r b then - vx b * RESTITUTION else vx b)"
    unfolding collideWalls_vx [of st b] collideWalls_side_vx [of st b] by simp
  show ?thesis
    by (intro conjI f yes no)
qed

theorem C6_ground_friction_witness:
  "vx (collideWalls \<lparr>w = 800, h = 600, dpr = 1\<rparr>
         \<lparr>px = 100, py = 521, vx = 100, vy = 20, r = 80, m = 1\<rparr>) = 100 * (1 - FRICTION)
   \<and> vx (collideWalls \<lparr>w = 800, h = 600, dpr = 1\<rparr>
         \<lparr>px = 100, py = 521, vx = 2, vy = 20, r = 80, m = 1\<rparr>) = 0
   \<and> vx (collideWalls \<lparr>w = 800, h = 600, dpr = 1\<rparr>
         \<lparr>px = 100, py = 521, vx = 100, vy = 500, r = 80, m = 1\<rparr>) = 100
   \<and> vx (collideWalls \<lparr>w = 800, h = 600, dpr = 1\<rparr>
         \<lparr>px = 100, py = 5198 / 10, vx = 100, vy = 20, r = 80, m = 1\<rparr>) = 100"
proof -
  let ?st = "\<lparr>w = 800, h = 600, dpr = 1\<rparr>"
  have a: "vx (collideWalls ?st \<lparr>px = 100, py = 521, vx = 100, vy = 20, r = 80, m = 1\<rparr>)
      = 100 * (1 - FRICTION)"
    using C6_ground_friction [of ?st "\<lparr>px = 100, py = 521, vx = 100, vy = 20, r = 80, m = 1\<rparr>"]
    by (simp add: RESTITUTION_def)
  have b: "vx (collideWalls ?st \<lparr>px = 100, py = 521, vx = 2, vy = 20, r = 80, m = 1\<rparr>) = 0"
    using C6_ground_friction [of ?st "\<lparr>px = 100, py = 521, vx = 2, vy = 20, r = 80, m = 1\<rparr>"]
    by (simp add: RESTITUTION_def)
  have c: "vx (collideWalls ?st \<lparr>px = 100, py = 521, vx = 100, vy = 500, r = 80, m = 1\<rparr>)
      = 100"
    using C6_ground_friction [of ?st "\<lparr>px = 100, py = 521, vx = 100, vy = 500, r = 80, m = 1\<rparr>"]
    by (simp add: RESTITUTION_def)
  have d: "vx (collideWalls ?st \<lparr>px = 100, py = 5198 / 10, vx = 100, vy = 20, r = 80, m = 1\<rparr>)
      = 100"
    using C6_ground_friction [of ?st
        "\<lparr>px = 100, py = 5198 / 10, vx = 100, vy = 20, r = 80, m = 1\<rparr>"]
    by (simp add: RESTITUTION_def)
  from a b c d show ?thesis by (intro conjI)
qed

subsection \<open>The positional correction of the pairwise resolver\<close>

lemma impulse_positions:
  "px (fst (collideBalls_impulse nx ny a b)) = px a
   \<and> py (fst (collideBalls_impulse nx ny a b)) = py a
   \<and> px (snd (collideBalls_impulse nx ny a b)) = px b
   \<and> py (snd (collideBalls_impulse nx ny a b)) = py b"
  by (simp add: collideBalls_impulse_def Let_def)

lemma collideBalls_overlap:
  assumes "0 < (px b - px a) * (px b - px a) + (py b - py a) * (py b - py a)"
    and "(px b - px a) * (px b - px a) + (py b - py a) * (py b - py a)
         \<le> (r a + r b) * (r a + r b)"
  shows "collideBalls a b =
     (case collideBalls_correction
         ((px b - px a) / sqrt ((px b - px a) * (px b - px a) + (py b - py a) * (py b - py a)))
         ((py b - py a) / sqrt ((px b - px a) * (px b - px a) + (py b - py a) * (py b - py a)))
         (r a + r b)
         (sqrt ((px b - px a) * (px b - px a) + (py b - py a) * (py b - py a))) a b
      of (a', b') \<Rightarrow>
        collideBalls_impulse
         ((px b - px a) / sqrt ((px b - px a) * (px b - px a) + (py b - py a) * (py b - py a)))
         ((py b - py a) / sqrt ((px b - px a) * (px b - px a) + (py b - py a) * (py b - py a)))
         a' b')"
proof -
  let ?d2 = "(px b - px a) * (px b - px a) + (py b - py a) * (py b - py a)"
  have "0 < sqrt ?d2" using assms(1) by (rule real_sqrt_gt_zero)
  then have "sqrt ?d2 \<noteq> 0" by linarith
  moreover have "\<not> (?d2 = 0 \<or> ?d2 > (r a + r b) * (r a + r b))"
    using assms by linarith
  ultimately show ?thesis
    unfolding collideBalls_def Let_def by (simp only: if_False if_True not_False_eq_True)
qed

lemma unit_normal:
  fixes dx dy :: real
  assumes "0 < dx * dx + dy * dy"
  shows "(dx / sqrt (dx * dx + dy * dy))\<^sup>2 + (dy / sqrt (dx * dx + dy * dy))\<^sup>2 = 1"
proof -
  let ?d2 = "dx * dx + dy * dy"
  have ne: "?d2 \<noteq> 0" using assms by linarith
  have "0 \<le> ?d2" using assms by linarith
  then have sq: "(sqrt ?d2)\<^sup>2 = ?d2" by (rule real_sqrt_pow2)
  have "(dx / sqrt ?d2)\<^sup>2 + (dy / sqrt ?d2)\<^sup>2 = (dx\<^sup>2 + dy\<^sup>2) / (sqrt ?d2)\<^sup>2"
    by (simp add: power_divide add_divide_distrib)
  also have "\<dots> = ?d2 / ?d2" by (simp add: sq power2_eq_square)
  also have "\<dots> = 1" using ne by (rule divide_self)
  finally show ?thesis .
qed
lemma sqrt_2500: "sqrt 2500 = 50"
  using real_sqrt_abs [of 50] by simp

text \<open>
  Claim C4. When the centres are at a distance \<open>d\<close> with \<open>0 < d\<^sup>2 \<le> (r\<^sub>a + r\<^sub>b)\<^sup>2\<close>,
  \<^verbatim>\<open>collideBalls\<close> runs the positional correction with the unit normal \<open>(dx / d, dy / d)\<close>
  and then the impulse exchange. The correction changes only the positions: \<open>a\<close> moves by
  \<open>(r\<^sub>a + r\<^sub>b - d) * m\<^sub>b / (m\<^sub>a + m\<^sub>b)\<close> against the normal, \<open>b\<close> by
  \<open>(r\<^sub>a + r\<^sub>b - d) * m\<^sub>a / (m\<^sub>a + m\<^sub>b)\<close> along it, and these are the positions the call
  returns. With positive masses the heavier body moves less.
\<close>

theorem C4_positional_correction:
  fixes a b :: Ball
  defines "dx \<equiv> px b - px a" and "dy \<equiv> py b - py a"
  defines "d \<equiv> sqrt (dx * dx + dy * dy)"
  defines "ca \<equiv> (r a + r b - d) * m b / (m a + m b)"
  defines "cb \<equiv> (r a + r b - d) * m a / (m a + m b)"
  assumes pos: "0 < dx * dx + dy * dy"
    and ov: "dx * dx + dy * dy \<le> (r a + r b) * (r a + r b)"
  shows "collideBalls a b =
        (case collideBalls_correction (dx / d) (dy / d) (r a + r b) d a b of
           (a', b') \<Rightarrow> collideBalls_impulse (dx / d) (dy / d) a' b')
     \<and> collideBalls_correction (dx / d) (dy / d) (r a + r b) d a b =
        (a\<lparr>px := px a - dx / d * ca, py := py a - dy / d * ca\<rparr>,
         b\<lparr>px := px b + dx / d * cb, py := py b + dy / d * cb\<rparr>)
     \<and> px (fst (collideBalls a b)) = px a - dx / d * ca
     \<and> py (fst (collideBalls a b)) = py a - dy / d * ca
     \<and> px (snd (collideBalls a b)) = px b + dx / d * cb
     \<and> py (snd (collideBalls a b)) = py b + dy / d * cb
     \<and> (dx / d)\<^sup>2 + (dy / d)\<^sup>2 = 1
     \<and> (0 < m a \<and> m a \<le> m b \<longrightarrow> \<bar>cb\<bar> \<le> \<bar>ca\<bar>)"
proof -
  have split: "collideBalls a b =
        (case collideBalls_correction (dx / d) (dy / d) (r a + r b) d a b of
           (a', b') \<Rightarrow> collideBalls_impulse (dx / d) (dy / d) a' b')"
    using pos ov unfolding dx_def dy_def d_def by (rule collideBalls_overlap)
  have corr: "collideBalls_correction (dx / d) (dy / d) (r a + r b) d a b =
        (a\<lparr>px := px a - dx / d * ca, py := py a - dy / d * ca\<rparr>,
         b\<lparr>px := px b + dx / d * cb, py := py b + dy / d * cb\<rparr>)"
    by (simp add: collideBalls_correction_def Let_def ca_def cb_def)
  have fin: "px (fst (collideBalls a b)) = px a - dx / d * ca"
      "py (fst (collideBalls a b)) = py a - dy / d * ca"
      "px (snd (collideBalls a b)) = px b + dx / d * cb"
      "py (snd (collideBalls a b)) = py b + dy / d * cb"
    unfolding split corr by (simp_all add: impulse_positions)
  have unit: "(dx / d)\<^sup>2 + (dy / d)\<^sup>2 = 1"
    unfolding d_def using pos by (rule unit_normal)
  have heavier: "0 < m a \<and> m a \<le> m b \<longrightarrow> \<bar>cb\<bar> \<le> \<bar>ca\<bar>"
  proof
    assume h: "0 < m a \<and> m a \<le> m b"
    then have t: "0 < m a + m b" by simp
    have "\<bar>cb\<bar> = \<bar>r a + r b - d\<bar> * m a / (m a + m b)"
      using h t by (simp add: cb_def abs_mult)
    also have "\<dots> \<le> \<bar>r a + r b - d\<bar> * m b / (m a + m b)"
      using h t by (intro divide_right_mono mult_left_mono) simp_all
    also have "\<dots> = \<bar>ca\<bar>"
      using h t by (simp add: ca_def abs_mult)
    finally show "\<bar>cb\<bar> \<le> \<bar>ca\<bar>" .
  qed
  show ?thesis
    by (intro conjI split corr fin unit heavier)
qed

theorem C4_positional_correction_witness:
  "px (fst (collideBalls \<lparr>px = 0, py = 0, vx = 7, vy = 0, r = 50, m = 3\<rparr>
                         \<lparr>px = 30, py = 40, vx = 0, vy = 0, r = 30, m = 1\<rparr>)) = - 9 / 2
   \<and> py (fst (collideBalls \<lparr>px = 0, py = 0, vx = 7, vy = 0, r = 50, m = 3\<rparr>
                         \<lparr>px = 30, py = 40, vx = 0, vy = 0, r = 30, m = 1\<rparr>)) = - 6
   \<and> px (snd (collideBalls \<lparr>px = 0, py = 0, vx = 7, vy = 0, r = 50, m = 3\<rparr>
                         \<lparr>px = 30, py = 40, vx = 0, vy = 0, r = 30, m = 1\<rparr>)) = 87 / 2
   \<and> py (snd (collideBalls \<lparr>px = 0, py = 0, vx = 7, vy = 0, r = 50, m = 3\<rparr>
                         \<lparr>px = 30, py = 40, vx = 0, vy = 0, r = 30, m = 1\<rparr>)) = 58"
  using C4_positional_correction [where a = "\<lparr>px = 0, py = 0, vx = 7, vy = 0, r = 50, m = 3\<rparr>"
      and b = "\<lparr>px = 30, py = 40, vx = 0, vy = 0, r = 30, m = 1\<rparr>"]
  by (simp add: sqrt_2500 impulse_positions)

subsection \<open>The pairwise resolver does not depend on the order of its arguments\<close>

lemma correction_swap:
  "collideBalls_correction (- nx) (- ny) radii d b a
   = prod.swap (collideBalls_correction nx ny radii d a b)"
  by (simp add: collideBalls_correction_def Let_def add.commute)

lemma impulse_swap:
  "collideBalls_impulse (- nx) (- ny) b a = prod.swap (collideBalls_impulse nx ny a b)"
proof -
  have vn: "(vx a - vx b) * (- nx) + (vy a - vy b) * (- ny)
            = (vx b - vx a) * nx + (vy b - vy a) * ny"
    by (simp add: algebra_simps)
  have vt: "(vx a - vx b) * (- (- ny)) + (vy a - vy b) * (- nx)
            = (vx b - vx a) * (- ny) + (vy b - vy a) * nx"
    by (simp add: algebra_simps)
  have im: "1 / m b + 1 / m a = 1 / m a + 1 / m b"
    by (simp add: add.commute)
  show ?thesis
    unfolding collideBalls_impulse_def Let_def vn vt
    by (simp add: im)
qed

text \<open>
  Claim C7. From the same two bodies, \<^verbatim>\<open>collideBalls(b, a)\<close> leaves each body in the state
  \<^verbatim>\<open>collideBalls(a, b)\<close> leaves it in: swapping the arguments negates the normal and the
  tangent, and every correction and impulse changes sign with them.
\<close>

theorem C7_symmetry:
  "collideBalls b a = prod.swap (collideBalls a b)"
proof -
  let ?dx = "px b - px a" and ?dy = "py b - py a"
  let ?d2 = "?dx * ?dx + ?dy * ?dy"
  have d2: "(px a - px b) * (px a - px b) + (py a - py b) * (py a - py b) = ?d2"
    by (simp add: algebra_simps)
  have rr: "r b + r a = r a + r b" by simp
  show ?thesis
  proof (cases "?d2 = 0 \<or> ?d2 > (r a + r b) * (r a + r b)")
    case True
    then show ?thesis
      unfolding collideBalls_def Let_def d2 rr by simp
  next
    case False
    then have pos: "0 < ?d2" and ov: "?d2 \<le> (r a + r b) * (r a + r b)"
      using sum_squares_ge_zero [of ?dx ?dy] by linarith+
    have nx: "(px a - px b) / sqrt ?d2 = - (?dx / sqrt ?d2)"
      and ny: "(py a - py b) / sqrt ?d2 = - (?dy / sqrt ?d2)"
      by (simp_all only: minus_divide_left minus_diff_eq)
    obtain a' b' where c: "collideBalls_correction (?dx / sqrt ?d2) (?dy / sqrt ?d2)
        (r a + r b) (sqrt ?d2) a b = (a', b')"
      by (cases "collideBalls_correction (?dx / sqrt ?d2) (?dy / sqrt ?d2)
        (r a + r b) (sqrt ?d2) a b")
    have c': "collideBalls_correction (- (?dx / sqrt ?d2)) (- (?dy / sqrt ?d2))
        (r a + r b) (sqrt ?d2) b a = (b', a')"
      by (simp add: correction_swap c)
    have ab: "collideBalls a b = collideBalls_impulse (?dx / sqrt ?d2) (?dy / sqrt ?d2) a' b'"
      using collideBalls_overlap [OF pos ov] by (simp only: c prod.case)
    have pos': "0 < (px a - px b) * (px a - px b) + (py a - py b) * (py a - py b)"
      using pos by (simp only: d2)
    have ov': "(px a - px b) * (px a - px b) + (py a - py b) * (py a - py b)
        \<le> (r b + r a) * (r b + r a)"
      using ov by (simp only: d2 rr)
    have ba: "collideBalls b a
        = collideBalls_impulse (- (?dx / sqrt ?d2)) (- (?dy / sqrt ?d2)) b' a'"
      using collideBalls_overlap [OF pos' ov'] by (simp only: d2 rr nx ny c' prod.case)
    show ?thesis
      unfolding ab ba by (rule impulse_swap)
  qed
qed

subsection \<open>Two equal bodies meeting head-on\<close>

lemma sqrt_8100: "sqrt 8100 = 90"
  using real_sqrt_abs [of 90] by simp

lemma scenario_result:
  assumes "0 < M"
  shows "collideBalls \<lparr>px = x0, py = y0, vx = u, vy = v, r = 50, m = M\<rparr>
                      \<lparr>px = x0 + 90, py = y0, vx = u - 100, vy = v, r = 50, m = M\<rparr>
       = (\<lparr>px = x0 - 5, py = y0, vx = u - 92, vy = v, r = 50, m = M\<rparr>,
          \<lparr>px = x0 + 95, py = y0, vx = u - 8, vy = v, r = 50, m = M\<rparr>)"
proof -
  let ?a = "\<lparr>px = x0, py = y0, vx = u, vy = v, r = 50, m = M\<rparr>"
  let ?b = "\<lparr>px = x0 + 90, py = y0, vx = u - 100, vy = v, r = 50, m = M\<rparr>"
  have corr: "collideBalls_correction 1 0 100 90 ?a ?b
      = (\<lparr>px = x0 - 5, py = y0, vx = u, vy = v, r = 50, m = M\<rparr>,
         \<lparr>px = x0 + 95, py = y0, vx = u - 100, vy = v, r = 50, m = M\<rparr>)"
    using assms by (simp add: collideBalls_correction_def Let_def)
  have imp: "collideBalls_impulse 1 0 \<lparr>px = x0 - 5, py = y0, vx = u, vy = v, r = 50, m = M\<rparr>
         \<lparr>px = x0 + 95, py = y0, vx = u - 100, vy = v, r = 50, m = M\<rparr>
      = (\<lparr>px = x0 - 5, py = y0, vx = u - 92, vy = v, r = 50, m = M\<rparr>,
         \<lparr>px = x0 + 95, py = y0, vx = u - 8, vy = v, r = 50, m = M\<rparr>)"
    using assms by (simp add: collideBalls_impulse_def Let_def RESTITUTION_def)
  show ?thesis
    by (simp add: collideBalls_def Let_def sqrt_8100 corr imp)
qed

text \<open>
  Claim C8. Two bodies of radius 50 and equal mass \<open>M > 0\<close>, centres 90 apart along \<open>x\<close>,
  closing at 100 along \<open>x\<close>: one call of \<^verbatim>\<open>collideBalls\<close> moves each centre 5 outwards, so
  the distance becomes 100, not less than the 90 before, and the relative velocity along
  the normal \<open>(1, 0)\<close> becomes 84: they separate at 0.84 times the closing speed.
\<close>

theorem C8_scenario:
  assumes "0 < M"
    and "a = \<lparr>px = x0, py = y0, vx = u, vy = v, r = 50, m = M\<rparr>"
    and "b = \<lparr>px = x0 + 90, py = y0, vx = u - 100, vy = v, r = 50, m = M\<rparr>"
  shows "sqrt ((px b - px a)\<^sup>2 + (py b - py a)\<^sup>2) = 90
     \<and> (vx b - vx a) * 1 + (vy b - vy a) * 0 = - 100
     \<and> collideBalls a b
         = (\<lparr>px = x0 - 5, py = y0, vx = u - 92, vy = v, r = 50, m = M\<rparr>,
            \<lparr>px = x0 + 95, py = y0, vx = u - 8, vy = v, r = 50, m = M\<rparr>)
     \<and> sqrt ((px (snd (collideBalls a b)) - px (fst (collideBalls a b)))\<^sup>2
             + (py (snd (collideBalls a b)) - py (fst (collideBalls a b)))\<^sup>2)
         \<ge> sqrt ((px b - px a)\<^sup>2 + (py b - py a)\<^sup>2)
     \<and> (vx (snd (collideBalls a b)) - vx (fst (collideBalls a b))) * 1
         + (vy (snd (collideBalls a b)) - vy (fst (collideBalls a b))) * 0 = 84"
  unfolding assms(2,3) scenario_result [OF assms(1)]
  by simp

theorem C8_scenario_witness:
  "collideBalls ((new_Ball 0 0 50)\<lparr>vx := 50\<rparr>) ((new_Ball 90 0 50)\<lparr>vx := - 50\<rparr>)
     = ((new_Ball (- 5) 0 50)\<lparr>vx := - 42\<rparr>, (new_Ball 95 0 50)\<lparr>vx := 42\<rparr>)"
  using C8_scenario [of "pi * 50 * 50" "(new_Ball 0 0 50)\<lparr>vx := 50\<rparr>" 0 0 50 0
      "(new_Ball 90 0 50)\<lparr>vx := - 50\<rparr>"]
  by (simp add: new_Ball_def)

subsection \<open>A body at rest on the floor\<close>

lemma collide_pairs_single: "collide_pairs [c] = [c]"
  by (simp add: collide_pairs_def)

lemma step_single:
  "step g st dt [b] = [collideWalls st (integrate g (min MAX_DT dt) b)]"
  by (simp add: step_def substep_def SUBSTEPS_def Let_def collide_pairs_single)

lemma walls_landing:
  assumes "vx c = 0" and "r c \<le> py c" and "h st < py c + r c"
  shows "vx (collideWalls st c) = 0 \<and> py (collideWalls st c) = h st - r c
     \<and> vy (collideWalls st c) = - vy c * RESTITUTION \<and> r (collideWalls st c) = r c"
  using assms
  by (simp add: collideWalls_def collideWalls_left_def collideWalls_right_def
      collideWalls_top_def collideWalls_bottom_def Let_def)

lemma integrate_fields:
  "vx (integrate g s b) = vx b * exp (- AIR_DRAG * s * 1000)
   \<and> vy (integrate g s b) = (vy b + g * s) * exp (- AIR_DRAG * s * 1000)
   \<and> py (integrate g s b) = py b + (vy b + g * s) * exp (- AIR_DRAG * s * 1000) * s
   \<and> r (integrate g s b) = r b"
  by (simp add: integrate_def Let_def)

lemma resting_step:
  assumes g: "0 < g" and s: "0 < s" and fit: "2 * r b \<le> h st"
    and vx0: "vx b = 0" and floor: "py b = h st - r b"
    and lo: "- (g * s) < vy b" and hi: "vy b \<le> 0"
  shows "vx (collideWalls st (integrate g s b)) = 0
     \<and> py (collideWalls st (integrate g s b)) = h st - r b
     \<and> r (collideWalls st (integrate g s b)) = r b
     \<and> vy (collideWalls st (integrate g s b))
         = - ((vy b + g * s) * exp (- AIR_DRAG * s * 1000)) * RESTITUTION
     \<and> - (RESTITUTION * (g * s)) \<le> vy (collideWalls st (integrate g s b))
     \<and> vy (collideWalls st (integrate g s b)) < 0"
proof -
  let ?e = "exp (- AIR_DRAG * s * 1000)"
  let ?c = "integrate g s b"
  let ?v = "(vy b + g * s) * ?e"
  have e0: "0 < ?e" by simp
  have "- AIR_DRAG * s * 1000 \<le> 0" using s by (simp add: AIR_DRAG_def)
  then have e1: "?e \<le> 1" by (simp only: exp_le_one_iff)
  have gs: "0 < g * s" using g s by simp
  have up: "0 < vy b + g * s" using lo by linarith
  have up2: "vy b + g * s \<le> g * s" using hi by linarith
  have vpos: "0 < ?v" using up e0 by (rule mult_pos_pos)
  have "?v \<le> (vy b + g * s) * 1"
    using e1 up by (intro mult_left_mono) simp_all
  then have "?v \<le> vy b + g * s" by simp
  then have vle: "?v \<le> g * s" using up2 by linarith
  have dpos: "0 < ?v * s" using vpos s by (rule mult_pos_pos)
  have f: "vx ?c = 0" "vy ?c = ?v" "py ?c = h st - r b + ?v * s" "r ?c = r b"
    using integrate_fields [of g s b] vx0 floor by simp_all
  have top: "r ?c \<le> py ?c" using f fit dpos by linarith
  have bot: "h st < py ?c + r ?c" using f dpos by linarith
  note w = walls_landing [OF f(1) top bot]
  have vy': "vy (collideWalls st ?c) = - ?v * RESTITUTION"
    using w f by simp
  have r0: "(0::real) < 84 / 100" by simp
  have neg: "vy (collideWalls st ?c) < 0"
    unfolding vy' RESTITUTION_def using vpos by simp
  have "?v * RESTITUTION \<le> (g * s) * RESTITUTION"
    using vle by (intro mult_right_mono) (simp_all add: RESTITUTION_def)
  then have low: "- (RESTITUTION * (g * s)) \<le> vy (collideWalls st ?c)"
    unfolding vy' by (simp add: mult.commute)
  show ?thesis
    using w f vy' neg low by simp
qed

lemma restitution_gs:
  assumes "0 < g" and "0 < s"
  shows "- (g * s) < - (RESTITUTION * (g * s))"
proof -
  have "0 < g * s" using assms by simp
  then have "RESTITUTION * (g * s) < 1 * (g * s)"
    by (intro mult_strict_right_mono) (simp_all add: RESTITUTION_def)
  then show ?thesis by simp
qed

lemma resting_run:
  assumes g: "0 < g" and dt: "0 < dt" and fit: "2 * r b \<le> h st"
    and vx0: "vx b = 0" and vy0: "vy b = 0" and floor: "py b = h st - r b"
  shows "\<exists>c. (step g st dt ^^ Suc n) [b] = [c] \<and> vx c = 0 \<and> py c = h st - r b \<and> r c = r b
     \<and> - (RESTITUTION * (g * min MAX_DT dt)) \<le> vy c \<and> vy c < 0"
proof (induction n)
  case 0
  have s: "0 < min MAX_DT dt" using dt by (simp add: MAX_DT_def)
  have "- (g * min MAX_DT dt) < vy b" using g s vy0 by simp
  from resting_step [OF g s fit vx0 floor this] vy0
  show ?case by (simp add: step_single)
next
  case (Suc n)
  then obtain c where c: "(step g st dt ^^ Suc n) [b] = [c]" "vx c = 0" "py c = h st - r b"
    "r c = r b" "- (RESTITUTION * (g * min MAX_DT dt)) \<le> vy c" "vy c < 0"
    by blast
  have s: "0 < min MAX_DT dt" using dt by (simp add: MAX_DT_def)
  have fit': "2 * r c \<le> h st" using fit c(4) by simp
  have floor': "py c = h st - r c" using c(3,4) by simp
  have lo: "- (g * min MAX_DT dt) < vy c"
    using restitution_gs [OF g s] c(5) by linarith
  have hi: "vy c \<le> 0" using c(6) by simp
  have "(step g st dt ^^ Suc (Suc n)) [b] = step g st dt [c]"
    using c(1) by (simp del: funpow.simps add: funpow.simps(2) [of "Suc n"])
  with resting_step [OF g s fit' c(2) floor' lo hi] c(4)
  show ?case by (simp add: step_single)
qed

text \<open>
  Claim C9 says that a body with zero velocity resting exactly on the floor has zero
  velocity after any number of steps. The code has no resting state: \<^verbatim>\<open>integrate\<close> adds
  \<open>G * dt\<close> to \<open>vy\<close> and moves the body below the floor, and the bottom check reflects that
  velocity. With the default gravity 1600, a body of radius 80 at rest on the floor of an
  800 by 600 canvas has \<open>vy = - 22.4 * exp (- 1 / 75)\<close> after one step of 1/60 s.
\<close>

theorem C9_counterexample:
  "vx (new_Ball 400 520 80) = 0 \<and> vy (new_Ball 400 520 80) = 0
   \<and> py (new_Ball 400 520 80) = h \<lparr>w = 800, h = 600, dpr = 1\<rparr> - r (new_Ball 400 520 80)
   \<and> map vy (step (G_of None) \<lparr>w = 800, h = 600, dpr = 1\<rparr> (1 / 60) [new_Ball 400 520 80])
       = [- (112 / 5 * exp (- (1 / 75)))]
   \<and> - (112 / 5 * exp (- (1 / 75))) \<noteq> (0::real)"
proof -
  let ?st = "\<lparr>w = 800, h = 600, dpr = 1\<rparr>"
  let ?b = "new_Ball 400 520 80"
  have "vy (collideWalls ?st (integrate 1600 (1 / 60) ?b))
      = - ((vy ?b + 1600 * (1 / 60)) * exp (- AIR_DRAG * (1 / 60) * 1000)) * RESTITUTION"
    using resting_step [of 1600 "1 / 60" ?b ?st] by (simp add: new_Ball_def)
  then have "vy (collideWalls ?st (integrate 1600 (1 / 60) ?b)) = - (112 / 5 * exp (- (1 / 75)))"
    by (simp add: new_Ball_def AIR_DRAG_def RESTITUTION_def)
  then show ?thesis
    by (simp add: step_single G_of_def MAX_DT_def) (simp add: new_Ball_def)
qed

text \<open>
  Claim C9, amended. A body alone in the array, with zero velocity, exactly on the floor of
  a canvas at least as high as its diameter, with gravity \<open>g > 0\<close>: after every
  \<^verbatim>\<open>step(dt)\<close>, \<open>dt > 0\<close>, its horizontal velocity is 0 and it is exactly on the floor
  again, and its vertical velocity is not 0 but within
  \<open>- RESTITUTION * g * s \<le> vy < 0\<close>, where \<open>s = min MAX_DT dt\<close>; after the first step it is
  \<open>- RESTITUTION * g * s * exp (- AIR_DRAG * s * 1000)\<close>.
\<close>

theorem C9_resting_body:
  assumes "0 < g" and "0 < dt" and "2 * r b \<le> h st"
    and "vx b = 0" and "vy b = 0" and "py b = h st - r b"
  shows "map vx ((step g st dt ^^ Suc n) [b]) = [0]
     \<and> map py ((step g st dt ^^ Suc n) [b]) = [h st - r b]
     \<and> list_all (\<lambda>c. - (RESTITUTION * (g * min MAX_DT dt)) \<le> vy c \<and> vy c < 0)
          ((step g st dt ^^ Suc n) [b])
     \<and> map vy (step g st dt [b])
         = [- (g * min MAX_DT dt * exp (- AIR_DRAG * min MAX_DT dt * 1000)) * RESTITUTION]"
proof -
  obtain c where c: "(step g st dt ^^ Suc n) [b] = [c]" "vx c = 0" "py c = h st - r b"
    "- (RESTITUTION * (g * min MAX_DT dt)) \<le> vy c" "vy c < 0"
    using resting_run [OF assms, of n] by blast
  have s: "0 < min MAX_DT dt" using assms(2) by (simp add: MAX_DT_def)
  have "- (g * min MAX_DT dt) < vy b" using assms(1,5) s by simp
  from resting_step [OF assms(1) s assms(3,4,6) this] assms(5)
  have one: "map vy (step g st dt [b])
         = [- (g * min MAX_DT dt * exp (- AIR_DRAG * min MAX_DT dt * 1000)) * RESTITUTION]"
    by (simp add: step_single)
  show ?thesis
    unfolding c(1) using c(2-5) one by simp
qed

theorem C9_resting_body_witness:
  "map vx ((step 1600 \<lparr>w = 800, h = 600, dpr = 1\<rparr> (1 / 60) ^^ Suc 2) [new_Ball 400 520 80]) = [0]
   \<and> map py ((step 1600 \<lparr>w = 800, h = 600, dpr = 1\<rparr> (1 / 60) ^^ Suc 2) [new_Ball 400 520 80])
       = [520]
   \<and> list_all (\<lambda>c. - (RESTITUTION * (1600 * min MAX_DT (1 / 60))) \<le> vy c \<and> vy c < 0)
        ((step 1600 \<lparr>w = 800, h = 600, dpr = 1\<rparr> (1 / 60) ^^ Suc 2) [new_Ball 400 520 80])"
  using C9_resting_body [of 1600 "1 / 60" "new_Ball 400 520 80" "\<lparr>w = 800, h = 600, dpr = 1\<rparr>" 2]
  by (simp add: new_Ball_def)

end
